theory Spec2Isabelle
  imports Complex_Main
begin

section \<open>Numbers\<close>

text \<open>
  Every JavaScript number of the program is modelled as a real: arithmetic is exact, and
  the rounding of IEEE doubles and the two infinities are left out. Where the control flow
  of the program depends on a value that is not a number (an unparsable input field, a read
  past the end of an array), the value has type \<open>jsnum\<close>, whose constructor \<open>NaN\<close> stands for
  both \<^verbatim>\<open>NaN\<close> and \<^verbatim>\<open>undefined\<close>: the two behave alike in every comparison and sum of
  the modelled code.

  The program divides by \<^verbatim>\<open>point2.x - point1.x\<close>, by the canvas width and by the span of the
  display range. JavaScript yields \<^verbatim>\<open>NaN\<close> or an infinity when such a divisor is zero, HOL
  yields 0; the theorems below therefore carry the hypothesis that the divisor is not zero
  wherever one is used.
\<close>

datatype jsnum = NaN | Num real

text \<open>\<^verbatim>\<open>Math.round\<close>: the nearest integer, a tie going up.\<close>

definition Math_round :: "real \<Rightarrow> real" where
  "Math_round v = of_int \<lfloor>v + 1 / 2\<rfloor>"





fun js_add :: "jsnum \<Rightarrow> jsnum \<Rightarrow> jsnum" where
  "js_add (Num a) (Num b) = Num (a + b)"
| "js_add _ _ = NaN"



fun js_div :: "jsnum \<Rightarrow> real \<Rightarrow> jsnum" where
  "js_div (Num a) b = Num (a / b)"
| "js_div NaN b = NaN"


section \<open>Calibration and sensor range (src/js/spectragraph.js)\<close>

record calibration_point =
  point_x :: real
  wavelength :: real

record calibration =
  point1 :: calibration_point
  point2 :: calibration_point

record wl_range =
  range_start :: real
  range_end :: real

text \<open>The calibration set by the constructor of \<^verbatim>\<open>Spectragraph\<close>.\<close>

definition default_calibration :: calibration where
  "default_calibration =
     \<lparr>point1 = \<lparr>point_x = 1623, wavelength = 4054 / 10\<rparr>,
      point2 = \<lparr>point_x = 1238, wavelength = 6116 / 10\<rparr>\<rparr>"

definition wavelengthPerPixel :: "calibration \<Rightarrow> real" where
  "wavelengthPerPixel c =
     (wavelength (point2 c) - wavelength (point1 c)) / (point_x (point2 c) - point_x (point1 c))"

text \<open>The wavelength at \<^verbatim>\<open>x = 0\<close>, as \<^verbatim>\<open>calculateSensorRange\<close> and \<^verbatim>\<open>exportToCSV\<close> compute it.\<close>

definition startWavelength :: "calibration \<Rightarrow> real" where
  "startWavelength c = wavelength (point1 c) - point_x (point1 c) * wavelengthPerPixel c"

definition endWavelength :: "calibration \<Rightarrow> real" where
  "endWavelength c = startWavelength c + 1920 * wavelengthPerPixel c"

definition calculateSensorRange :: "calibration \<Rightarrow> wl_range" where
  "calculateSensorRange c =
     (let start = min (startWavelength c) (endWavelength c);
          end' = max (startWavelength c) (endWavelength c)
      in \<lparr>range_start = Math_round (start * 10) / 10,
          range_end = Math_round (end' * 10) / 10\<rparr>)"

definition nondegenerate :: "calibration \<Rightarrow> bool" where
  "nondegenerate c = (point_x (point1 c) \<noteq> point_x (point2 c))"

section \<open>The view state (class Spectragraph, src/js/spectragraph.js)\<close>

text \<open>
  The fields of \<^verbatim>\<open>Spectragraph\<close> that the modelled methods read or write. \<^verbatim>\<open>canvas_width\<close> is
  \<^verbatim>\<open>this.canvas.width\<close>, set by the browser and by \<^verbatim>\<open>resizeCanvas\<close>. The two data arrays are
  optional because \<^verbatim>\<open>getCurrentData\<close> tests them for \<^verbatim>\<open>null\<close>; \<open>None\<close> is a field that holds no array.
\<close>

record spectragraph =
  calibration :: calibration
  displayRange :: wl_range
  isReversed :: bool
  canvas_width :: real
  data :: "jsnum list option"
  rawData :: "jsnum list option"


text \<open>The state the constructor builds, for a canvas of width \<open>w\<close>.\<close>

definition initial_spectragraph :: "real \<Rightarrow> spectragraph" where
  "initial_spectragraph w =
     \<lparr>calibration = default_calibration,
      displayRange = \<lparr>range_start = 350, range_end = 1200\<rparr>,
      isReversed = False,
      canvas_width = w,
      data = Some (replicate 960 (Num 0)),
      rawData = Some (replicate 960 (Num 0))\<rparr>"


text \<open>\<^verbatim>\<open>updateData\<close> (lines 178 to 182) replaces both arrays.\<close>

definition updateData :: "jsnum list \<Rightarrow> jsnum list \<Rightarrow> spectragraph \<Rightarrow> spectragraph" where
  "updateData newData newRawData s = s\<lparr>data := Some newData, rawData := Some newRawData\<rparr>"










section \<open>Extraction of the spectrum (ImageProcessor.processFrame, src/js/imageProcessor.js)\<close>

text \<open>The four input fields of the region of interest, as \<^verbatim>\<open>parseInt\<close> returns them.\<close>

record region =
  startX :: int
  stopX :: int
  startY :: int
  stopY :: int

text \<open>
  The canvas context is known by its \<^verbatim>\<open>getImageData(sx, sy, sw, sh).data\<close>: four bytes per
  pixel, row by row. The browser raises \<^verbatim>\<open>IndexSizeError\<close> when \<open>sw\<close> or \<open>sh\<close> is 0, and
  \<^verbatim>\<open>new Array(width)\<close> raises \<^verbatim>\<open>RangeError\<close> for a negative width.
\<close>

type_synonym canvas_context = "int \<Rightarrow> int \<Rightarrow> int \<Rightarrow> int \<Rightarrow> nat list"

datatype frame_error = IndexSizeError | RangeError

text \<open>A read of the byte array; past its end the read yields \<^verbatim>\<open>undefined\<close>.\<close>

definition byte_at :: "nat list \<Rightarrow> nat \<Rightarrow> jsnum" where
  "byte_at bytes i = (if i < length bytes then Num (real (bytes ! i)) else NaN)"

text \<open>The inner loop of \<^verbatim>\<open>processFrame\<close> (lines 83 to 88): the sum of the green bytes of column \<open>x\<close>.\<close>

definition column_sum :: "nat list \<Rightarrow> nat \<Rightarrow> int \<Rightarrow> nat \<Rightarrow> jsnum" where
  "column_sum bytes width height x =
     foldl (\<lambda>sum y. let i = (y * width + x) * 4 in js_add sum (byte_at bytes (i + 1)))
       (Num 0) [0..<nat height]"

text \<open>\<^verbatim>\<open>processFrame\<close> (lines 64 to 96).\<close>

definition processFrame :: "canvas_context \<Rightarrow> region \<Rightarrow> spectragraph \<Rightarrow> frame_error + spectragraph" where
  "processFrame sourceCtx r s =
     (let width = stopX r - startX r;
          height = stopY r - startY r
      in if width = 0 \<or> height = 0 then Inl IndexSizeError
         else if width < 0 then Inl RangeError
         else
           let bytes = sourceCtx (startX r) (startY r) width height;
               avgIntensity = (\<lambda>x. js_div (column_sum bytes (nat width) height x)
                                       (real_of_int (height * 255)));
               rawSpectrum = map avgIntensity [0..<nat width];
               spectrum = map avgIntensity [0..<nat width]
           in Inr (updateData spectrum rawSpectrum s))"

text \<open>A frame every byte of which is 128.\<close>

definition frame_128 :: canvas_context where
  "frame_128 sx sy sw sh = replicate (4 * nat \<bar>sw\<bar> * nat \<bar>sh\<bar>) 128"

section \<open>Current data, recording and export (src/js/spectragraph.js, src/js/imageProcessor.js)\<close>

text \<open>
  \<^verbatim>\<open>v || 0\<close> on an array element: 0 when the element is \<^verbatim>\<open>NaN\<close>, \<^verbatim>\<open>undefined\<close> or 0.
\<close>

fun or_zero :: "jsnum \<Rightarrow> real" where
  "or_zero NaN = 0"
| "or_zero (Num v) = v"

text \<open>
  A read of an array of numbers at an integer index; outside the array it yields \<^verbatim>\<open>undefined\<close>.
\<close>

definition array_at :: "jsnum list \<Rightarrow> int \<Rightarrow> jsnum" where
  "array_at xs i = (if 0 \<le> i \<and> i < int (length xs) then xs ! nat i else NaN)"


text \<open>
  \<^verbatim>\<open>Spectragraph.getCurrentData\<close> (lines 722 to 737): \<^verbatim>\<open>null\<close> when a data field holds no array,
  otherwise both arrays cut to the shorter length.
\<close>

record current_data =
  raw :: "real list"
  corrected :: "real list"
  length' :: nat

definition getCurrentData :: "spectragraph \<Rightarrow> current_data option" where
  "getCurrentData s =
     (case (data s, rawData s) of
        (Some d, Some r) \<Rightarrow>
          (let length = min (length d) (length r)
           in Some \<lparr>raw = map (\<lambda>i. or_zero (array_at r (int i))) [0..<length],
                    corrected = map (\<lambda>i. or_zero (array_at d (int i))) [0..<length],
                    length' = length\<rparr>)
      | _ \<Rightarrow> None)"

text \<open>
  The state of \<^verbatim>\<open>RecordingManager\<close> (src/js/imageProcessor.js, from line 112). A recorded frame
  holds strings produced by \<^verbatim>\<open>toFixed\<close>; the model keeps the numbers they denote.
  \<^verbatim>\<open>intervalId\<close> is \<open>Some\<close> handle once \<^verbatim>\<open>setInterval\<close> has started the sampling timer.
\<close>

record recorded_frame =
  timestamp :: int
  wavelengths :: "jsnum list"
  rawIntensities :: "real list"
  correctedIntensities :: "real list"

record recording_manager =
  mediaRecorder :: bool
  recordedChunks :: "nat list"
  spectralData :: "recorded_frame list"
  isRecording :: bool
  intervalId :: "nat option"
  startTime :: "int option"

definition new_recording_manager :: recording_manager where
  "new_recording_manager =
     \<lparr>mediaRecorder = False, recordedChunks = [], spectralData = [], isRecording = False,
      intervalId = None, startTime = None\<rparr>"











text \<open>
  What \<^verbatim>\<open>startRecording\<close> reads from the page and the browser: the raw-video checkbox,
  whether \<^verbatim>\<open>cameraManager.stream\<close> is set, whether \<^verbatim>\<open>MediaRecorder\<close> supports the format,
  the message of the error \<^verbatim>\<open>MediaRecorder\<close> raises if it does, the clock, and the handle that
  \<^verbatim>\<open>setInterval\<close> returns.
\<close>

record page =
  recordRawVideo_checked :: bool
  camera_stream :: bool
  webm_supported :: bool
  mediaRecorder_error :: "string option"
  date_now :: int
  next_interval_id :: nat

text \<open>
  \<^verbatim>\<open>===\<close> between a boolean and a number is false: the operands differ in type. In
  \<^verbatim>\<open>!data.raw.length === 0\<close> the negation binds first, so the left operand is a boolean.
\<close>

definition strict_eq_bool_number :: "bool \<Rightarrow> real \<Rightarrow> bool" where
  "strict_eq_bool_number b n = False"

text \<open>
  \<^verbatim>\<open>checkRecordingPossible\<close> (lines 315 to 335); \<open>Inl\<close> carries the message of the error
  thrown. The array \<^verbatim>\<open>data.raw\<close> built by \<^verbatim>\<open>getCurrentData\<close> is never \<^verbatim>\<open>null\<close>.
\<close>

definition checkRecordingPossible :: "page \<Rightarrow> spectragraph \<Rightarrow> string + unit" where
  "checkRecordingPossible p s =
     (case getCurrentData s of
        None \<Rightarrow> Inl ''No spectral data available. Please ensure the spectrometer is running.''
      | Some d \<Rightarrow>
          if strict_eq_bool_number (length (raw d) = 0) 0
          then Inl ''No spectral data available. Please ensure the spectrometer is running.''
          else if recordRawVideo_checked p
          then (if \<not> camera_stream p
                then Inl ''No camera stream available for video recording.''
                else if \<not> webm_supported p
                then Inl ''Your browser does not support WebM video recording.''
                else Inr ())
          else Inr ())"

text \<open>
  \<^verbatim>\<open>startRecording\<close> (lines 139 to 183). The result is the value returned, the alert shown
  if any, and the new state. \<open>begin_sampling\<close> is lines 169 to 178.
\<close>

definition begin_sampling :: "page \<Rightarrow> recording_manager \<Rightarrow> bool \<times> string option \<times> recording_manager" where
  "begin_sampling p rm =
     (True, None, rm\<lparr>intervalId := Some (next_interval_id p), isRecording := True\<rparr>)"

definition startRecording ::
    "page \<Rightarrow> spectragraph \<Rightarrow> recording_manager \<Rightarrow> bool \<times> string option \<times> recording_manager" where
  "startRecording p s rm =
     (case checkRecordingPossible p s of
        Inl message \<Rightarrow> (False, Some message, rm)
      | Inr _ \<Rightarrow>
          (let rm1 = rm\<lparr>spectralData := [], recordedChunks := [], startTime := Some (date_now p)\<rparr>
           in if recordRawVideo_checked p
              then (case mediaRecorder_error p of
                      Some message \<Rightarrow>
                        (False, Some (''Failed to start video recording: '' @ message), rm1)
                    | None \<Rightarrow> begin_sampling p (rm1\<lparr>mediaRecorder := True\<rparr>))
              else begin_sampling p rm1))"

text \<open>
  A page with the raw-video checkbox cleared, and a view whose two arrays are empty.
\<close>

definition quiet_page :: page where
  "quiet_page =
     \<lparr>recordRawVideo_checked = False, camera_stream = False, webm_supported = False,
      mediaRecorder_error = None, date_now = 1000, next_interval_id = 1\<rparr>"

definition empty_view :: spectragraph where
  "empty_view = updateData [] [] (initial_spectragraph 960)"

section \<open>Quantum-efficiency correction (class ImageProcessor of src/unnamed/part_005)\<close>


text \<open>
  The fields of this \<^verbatim>\<open>ImageProcessor\<close> that \<^verbatim>\<open>processImageData\<close> reads. The class sets
  \<^verbatim>\<open>qeData\<close> to \<^verbatim>\<open>null\<close> and never assigns it again; the source does not say what a loaded
  value looks like, so its type \<open>'q\<close> is a parameter, and \<open>None\<close> is \<^verbatim>\<open>null\<close>.
\<close>

record 'q image_processor =
  qeProfile :: string
  qeData :: "'q option"
  region :: region















section \<open>Peak search (Spectragraph.findNearestPeak, src/js/spectragraph.js)\<close>










section \<open>Properties of the sensor range\<close>

lemma Math_round_mono: "a \<le> b \<Longrightarrow> Math_round a \<le> Math_round b"
  unfolding Math_round_def by (simp add: floor_mono)

lemma calculateSensorRange_start:
  "range_start (calculateSensorRange c) =
     Math_round (min (startWavelength c) (endWavelength c) * 10) / 10"
  by (simp add: calculateSensorRange_def Let_def)

lemma calculateSensorRange_end:
  "range_end (calculateSensorRange c) =
     Math_round (max (startWavelength c) (endWavelength c) * 10) / 10"
  by (simp add: calculateSensorRange_def Let_def)

lemma sensor_range_ordered:
  "range_start (calculateSensorRange c) \<le> range_end (calculateSensorRange c)"
proof -
  have "min (startWavelength c) (endWavelength c) * 10
          \<le> max (startWavelength c) (endWavelength c) * 10"
    by simp
  then have "Math_round (min (startWavelength c) (endWavelength c) * 10)
          \<le> Math_round (max (startWavelength c) (endWavelength c) * 10)"
    by (rule Math_round_mono)
  then show ?thesis
    by (simp add: calculateSensorRange_start calculateSensorRange_end divide_right_mono)
qed

lemma default_slope: "wavelengthPerPixel default_calibration = - (1031 / 1925)"
  by (simp add: wavelengthPerPixel_def default_calibration_def)

lemma default_startWavelength: "startWavelength default_calibration = 2453708 / 1925"
  by (simp add: startWavelength_def default_slope) (simp add: default_calibration_def)

lemma default_endWavelength: "endWavelength default_calibration = 474188 / 1925"
  by (simp add: endWavelength_def default_startWavelength default_slope)

lemma default_sensor_range:
  "calculateSensorRange default_calibration = \<lparr>range_start = 2463 / 10, range_end = 12747 / 10\<rparr>"
proof -
  have a: "\<lfloor>(4741880 / 1925 + 1 / 2 :: real)\<rfloor> = 2463" by (simp add: floor_eq_iff)
  have b: "\<lfloor>(24537080 / 1925 + 1 / 2 :: real)\<rfloor> = 12747" by (simp add: floor_eq_iff)
  show ?thesis
    by (simp add: calculateSensorRange_def Let_def default_startWavelength
        default_endWavelength Math_round_def a b)
qed

text \<open>
  C2. For every calibration whose two pixel positions differ, also one whose second point
  lies left of the first (negative slope), \<^verbatim>\<open>calculateSensorRange\<close> returns start \<le> end:
  the start is the rounded minimum and the end the rounded maximum of the wavelengths at
  the two sensor edges, whatever the sign of the slope.
\<close>

theorem C2_sensor_range_ordered:
  assumes "nondegenerate c"
  shows "range_start (calculateSensorRange c) \<le> range_end (calculateSensorRange c)
       \<and> range_start (calculateSensorRange c)
           = Math_round (min (startWavelength c) (endWavelength c) * 10) / 10
       \<and> range_end (calculateSensorRange c)
           = Math_round (max (startWavelength c) (endWavelength c) * 10) / 10"
  using sensor_range_ordered calculateSensorRange_start calculateSensorRange_end by blast

theorem C2_witness:
  "nondegenerate default_calibration
   \<and> point_x (point2 default_calibration) < point_x (point1 default_calibration)
   \<and> wavelengthPerPixel default_calibration < 0
   \<and> range_start (calculateSensorRange default_calibration)
       \<le> range_end (calculateSensorRange default_calibration)"
proof -
  have nd: "nondegenerate default_calibration"
    by (simp add: nondegenerate_def default_calibration_def)
  have "point_x (point2 default_calibration) < point_x (point1 default_calibration)"
    by (simp add: default_calibration_def)
  moreover have "wavelengthPerPixel default_calibration < 0"
    by (simp add: default_slope)
  ultimately show ?thesis
    using nd C2_sensor_range_ordered [OF nd] by blast
qed

text \<open>
  C3, as the specification states it: with the calibration (1623, 405.4), (1238, 611.6) the
  sensor range is about 175.9 to 1254.5. The code returns 246.3 to 1274.7: both bounds are
  off by more than 20 nm.
\<close>

theorem C3_counterexample:
  "\<not> (\<bar>range_start (calculateSensorRange default_calibration) - 1759 / 10\<bar> \<le> 20
      \<or> \<bar>range_end (calculateSensorRange default_calibration) - 12545 / 10\<bar> \<le> 20)"
  by (simp add: default_sensor_range)

text \<open>
  C3, amended. With that calibration the slope is \<open>-1031/1925\<close>, within \<open>10\<^sup>-\<^sup>4\<close> of
  \<open>-0.5356\<close>; the wavelengths at \<^verbatim>\<open>x = 0\<close> and \<^verbatim>\<open>x = 1920\<close> are \<open>2453708/1925\<close> and
  \<open>474188/1925\<close>; and \<^verbatim>\<open>calculateSensorRange\<close>, their minimum and maximum rounded to one
  decimal, is 246.3 to 1274.7.
\<close>

theorem C3_default_sensor_range:
  "wavelengthPerPixel default_calibration = (6116 / 10 - 4054 / 10) / (1238 - 1623)
   \<and> \<bar>wavelengthPerPixel default_calibration - (- (5356 / 10000))\<bar> < 1 / 10000
   \<and> startWavelength default_calibration = 2453708 / 1925
   \<and> endWavelength default_calibration = 474188 / 1925
   \<and> calculateSensorRange default_calibration
       = \<lparr>range_start = 2463 / 10, range_end = 12747 / 10\<rparr>"
  by (simp add: default_slope default_startWavelength default_endWavelength
      default_sensor_range)

section \<open>Zooming and the display range\<close>





















section \<open>Extraction of a uniform frame\<close>

lemma column_sum_const_aux:
  "(\<And>y. y < n \<Longrightarrow> byte_at bytes ((y * w + x) * 4 + 1) = Num v) \<Longrightarrow>
   foldl (\<lambda>sum y. let i = (y * w + x) * 4 in js_add sum (byte_at bytes (i + 1))) (Num 0) [0..<n]
     = Num (real n * v)"
proof (induction n)
  case 0
  then show ?case by simp
next
  case (Suc n)
  then show ?case by (simp add: Let_def algebra_simps)
qed

lemma column_sum_const:
  assumes "\<And>y. y < nat height \<Longrightarrow> byte_at bytes ((y * w + x) * 4 + 1) = Num v"
  shows "column_sum bytes w height x = Num (real (nat height) * v)"
  unfolding column_sum_def using assms by (rule column_sum_const_aux)

lemma green_in_range:
  assumes "length bytes = 4 * w * h" "x < w" "y < h"
  shows "(y * w + x) * 4 + 1 < length bytes"
proof -
  have "y * w + x < h * w"
  proof -
    have "y * w + x < y * w + w" using assms(2) by simp
    also have "\<dots> = (Suc y) * w" by simp
    also have "\<dots> \<le> h * w" using assms(3) by (intro mult_le_mono1) simp
    finally show ?thesis .
  qed
  then have "(y * w + x) * 4 + 4 \<le> h * w * 4" by simp
  then show ?thesis using assms(1) by (simp add: mult.commute mult.left_commute)
qed

lemma js_div_cancel: "0 < H \<Longrightarrow> js_div (Num (H * G)) (H * 255) = Num (G / 255)"
  by simp

lemma processFrame_uniform:
  assumes x: "startX r < stopX r" and y: "startY r < stopY r"
    and len: "length (sourceCtx (startX r) (startY r) (stopX r - startX r) (stopY r - startY r))
               = 4 * nat (stopX r - startX r) * nat (stopY r - startY r)"
    and green: "\<And>i. i < nat (stopX r - startX r) * nat (stopY r - startY r) \<Longrightarrow>
        sourceCtx (startX r) (startY r) (stopX r - startX r) (stopY r - startY r) ! (4 * i + 1) = g"
  shows "processFrame sourceCtx r s
         = Inr (updateData (replicate (nat (stopX r - startX r)) (Num (real g / 255)))
                  (replicate (nat (stopX r - startX r)) (Num (real g / 255))) s)"
proof -
  let ?w = "nat (stopX r - startX r)" and ?h = "nat (stopY r - startY r)"
  let ?bytes = "sourceCtx (startX r) (startY r) (stopX r - startX r) (stopY r - startY r)"
  have hpos: "0 < ?h" using y by simp
  have col: "js_div (column_sum ?bytes ?w (stopY r - startY r) c)
               (real_of_int ((stopY r - startY r) * 255)) = Num (real g / 255)"
    if c: "c < ?w" for c
  proof -
    have "byte_at ?bytes ((yy * ?w + c) * 4 + 1) = Num (real g)" if yy: "yy < ?h" for yy
    proof -
      have rng: "(yy * ?w + c) * 4 + 1 < length ?bytes"
        using len c yy by (rule green_in_range)
      have "yy * ?w + c < ?w * ?h"
        using rng len by simp
      then have "?bytes ! (4 * (yy * ?w + c) + 1) = g" by (rule green)
      then show ?thesis using rng by (simp add: byte_at_def mult.commute)
    qed
    then have "column_sum ?bytes ?w (stopY r - startY r) c = Num (real ?h * real g)"
      by (rule column_sum_const)
    moreover have "real_of_int ((stopY r - startY r) * 255) = real ?h * 255"
      using y by simp
    moreover have "js_div (Num (real ?h * real g)) (real ?h * 255) = Num (real g / 255)"
      using hpos by (rule_tac js_div_cancel) simp
    ultimately show ?thesis by (simp only:)
  qed
  define f where "f = (\<lambda>c. js_div (column_sum ?bytes ?w (stopY r - startY r) c)
               (real_of_int ((stopY r - startY r) * 255)))"
  have "f c = Num (real g / 255)" if "c < ?w" for c
    unfolding f_def using that by (rule col)
  then have "map f [0..<?w] = replicate ?w (Num (real g / 255))"
    by (intro nth_equalityI) simp_all
  then show ?thesis
    using x y unfolding f_def by (simp add: processFrame_def Let_def)
qed

text \<open>
  C8. For a region of interest with \<open>startX < stopX\<close> and a height of 50 rows, and a frame
  whose green bytes in that region are all 128, \<^verbatim>\<open>processFrame\<close> succeeds and hands
  \<^verbatim>\<open>updateData\<close> one value per column of the region, \<open>stopX - startX\<close> values in all, each
  equal to \<open>128/255\<close>.
\<close>

theorem C8_extract_uniform:
  assumes "startX r < stopX r" and "stopY r - startY r = 50"
    and "length (sourceCtx (startX r) (startY r) (stopX r - startX r) 50)
           = 4 * nat (stopX r - startX r) * 50"
    and "\<And>i. i < nat (stopX r - startX r) * 50 \<Longrightarrow>
           sourceCtx (startX r) (startY r) (stopX r - startX r) 50 ! (4 * i + 1) = 128"
  shows "\<exists>spectrum. processFrame sourceCtx r s = Inr (updateData spectrum spectrum s)
           \<and> int (length spectrum) = stopX r - startX r
           \<and> spectrum = replicate (nat (stopX r - startX r)) (Num (128 / 255))"
proof -
  have y: "startY r < stopY r" using assms(2) by simp
  have "processFrame sourceCtx r s
         = Inr (updateData (replicate (nat (stopX r - startX r)) (Num (real 128 / 255)))
                  (replicate (nat (stopX r - startX r)) (Num (real 128 / 255))) s)"
    using assms(1) y
  proof (rule processFrame_uniform)
    show "length (sourceCtx (startX r) (startY r) (stopX r - startX r) (stopY r - startY r))
               = 4 * nat (stopX r - startX r) * nat (stopY r - startY r)"
      using assms(3) by (simp add: assms(2))
    show "sourceCtx (startX r) (startY r) (stopX r - startX r) (stopY r - startY r) ! (4 * i + 1) = 128"
      if "i < nat (stopX r - startX r) * nat (stopY r - startY r)" for i
      using assms(4) [of i] that by (simp add: assms(2))
  qed
  then show ?thesis using assms(1) by simp
qed

theorem C8_witness:
  "processFrame frame_128 \<lparr>startX = 100, stopX = 103, startY = 10, stopY = 60\<rparr>
       (initial_spectragraph 960)
     = Inr (updateData [Num (128 / 255), Num (128 / 255), Num (128 / 255)]
              [Num (128 / 255), Num (128 / 255), Num (128 / 255)] (initial_spectragraph 960))"
proof -
  let ?r = "\<lparr>startX = 100, stopX = 103, startY = 10, stopY = 60\<rparr>"
  have 1: "startX ?r < stopX ?r" by simp
  have 2: "stopY ?r - startY ?r = 50" by simp
  have 3: "length (frame_128 (startX ?r) (startY ?r) (stopX ?r - startX ?r) 50)
           = 4 * nat (stopX ?r - startX ?r) * 50"
    by (simp add: frame_128_def)
  have 4: "frame_128 (startX ?r) (startY ?r) (stopX ?r - startX ?r) 50 ! (4 * i + 1) = 128"
    if "i < nat (stopX ?r - startX ?r) * 50" for i
    using that by (simp add: frame_128_def)
  show ?thesis
    using C8_extract_uniform [of ?r frame_128 "initial_spectragraph 960", OF 1 2 3 4]
    by (auto simp add: numeral_3_eq_3)
qed

section \<open>The recorded wavelength axis\<close>
















section \<open>Starting a recording\<close>

text \<open>
  \<^verbatim>\<open>startRecording\<close> refuses to start, and leaves the recorder untouched, when a data field
  holds no array, and when raw video is requested without a camera stream.
\<close>

lemma startRecording_no_arrays:
  "data s = None \<or> rawData s = None \<Longrightarrow>
   startRecording p s rm
     = (False, Some ''No spectral data available. Please ensure the spectrometer is running.'', rm)"
  by (auto simp add: startRecording_def checkRecordingPossible_def getCurrentData_def
      split: option.splits)

lemma startRecording_no_stream:
  "data s = Some d \<Longrightarrow> rawData s = Some r \<Longrightarrow> recordRawVideo_checked p \<Longrightarrow> \<not> camera_stream p \<Longrightarrow>
   startRecording p s rm = (False, Some ''No camera stream available for video recording.'', rm)"
  by (simp add: startRecording_def checkRecordingPossible_def getCurrentData_def Let_def
      strict_eq_bool_number_def)

text \<open>
  C6, evaluated where the code departs from it. With both data arrays empty and raw video
  not requested, \<^verbatim>\<open>getCurrentData\<close> returns two empty arrays, the test
  \<^verbatim>\<open>!data.raw.length === 0\<close> is false, \<^verbatim>\<open>checkRecordingPossible\<close> passes, and
  \<^verbatim>\<open>startRecording\<close> returns true with the session begun and the sampling timer started.
\<close>

theorem C6_starts_on_empty_arrays:
  "getCurrentData empty_view = Some \<lparr>raw = [], corrected = [], length' = 0\<rparr>
   \<and> checkRecordingPossible quiet_page empty_view = Inr ()
   \<and> startRecording quiet_page empty_view new_recording_manager
       = (True, None,
          new_recording_manager\<lparr>startTime := Some 1000, intervalId := Some 1, isRecording := True\<rparr>)"
  by (simp add: startRecording_def checkRecordingPossible_def getCurrentData_def Let_def
      strict_eq_bool_number_def empty_view_def updateData_def initial_spectragraph_def
      quiet_page_def new_recording_manager_def begin_sampling_def)

section \<open>The correction applied by the code\<close>







section \<open>What the peak search returns\<close>


















end
